theory Spec2Isabelle
  imports Main
begin

section \<open>Data model (lib/types.ts, in src/registry/default/lib/actions.ts)\<close>

text \<open>
  The TypeScript string-literal unions become datatypes; the function next to each
  gives the string the literal stands for at run time.
\<close>

datatype PromptTemplate = Daily_Standup_Report | Sprint_Report | Release_Notes | Custom

fun PromptTemplate_str :: "PromptTemplate \<Rightarrow> string" where
  "PromptTemplate_str Daily_Standup_Report = ''Daily Standup Report''"
| "PromptTemplate_str Sprint_Report = ''Sprint Report''"
| "PromptTemplate_str Release_Notes = ''Release Notes''"
| "PromptTemplate_str Custom = ''Custom''"

datatype FilterParameter =
  FP_REPOSITORY | FP_LABEL | FP_TEAM | FP_USER | FP_SOURCEBRANCH | FP_TARGETBRANCH | FP_STATE

fun FilterParameter_str :: "FilterParameter \<Rightarrow> string" where
  "FilterParameter_str FP_REPOSITORY = ''REPOSITORY''"
| "FilterParameter_str FP_LABEL = ''LABEL''"
| "FilterParameter_str FP_TEAM = ''TEAM''"
| "FilterParameter_str FP_USER = ''USER''"
| "FilterParameter_str FP_SOURCEBRANCH = ''SOURCEBRANCH''"
| "FilterParameter_str FP_TARGETBRANCH = ''TARGETBRANCH''"
| "FilterParameter_str FP_STATE = ''STATE''"

datatype FilterOperator = OP_IN | OP_ALL | OP_NOT_IN

fun FilterOperator_str :: "FilterOperator \<Rightarrow> string" where
  "FilterOperator_str OP_IN = ''IN''"
| "FilterOperator_str OP_ALL = ''ALL''"
| "FilterOperator_str OP_NOT_IN = ''NOT_IN''"

datatype GroupBy =
  NONE | REPOSITORY | LABEL | TEAM | USER | SOURCEBRANCH | TARGETBRANCH | STATE

fun GroupBy_str :: "GroupBy \<Rightarrow> string" where
  "GroupBy_str NONE = ''NONE''"
| "GroupBy_str REPOSITORY = ''REPOSITORY''"
| "GroupBy_str LABEL = ''LABEL''"
| "GroupBy_str TEAM = ''TEAM''"
| "GroupBy_str USER = ''USER''"
| "GroupBy_str SOURCEBRANCH = ''SOURCEBRANCH''"
| "GroupBy_str TARGETBRANCH = ''TARGETBRANCH''"
| "GroupBy_str STATE = ''STATE''"

datatype ReportStatus = pending | completed | failed

record FilterConfig =
  fc_parameter :: FilterParameter
  fc_operator :: FilterOperator
  fc_values :: "string list"

text \<open>
  \<open>ReportGenerateRequest\<close>: an optional field \<open>f?: T\<close> is \<open>T option\<close>, \<open>None\<close> when the
  property is absent. \<open>scheduleRange\<close> has the literal type \<open>'Dates'\<close>; it is kept as a
  string so that the \<open>??\<close> default is visible.
\<close>

record ReportGenerateRequest =
  req_scheduleRange :: "string option"
  req_from :: string
  req_to :: string
  req_prompt :: "string option"
  req_promptTemplate :: "PromptTemplate option"
  req_parameters :: "FilterConfig list option"
  req_groupBy :: "GroupBy option"
  req_subgroupBy :: "GroupBy option"
  req_orgId :: "string option"

record ReportResult =
  rr_group :: string
  rr_report :: string

section \<open>JavaScript values the code relies on\<close>

text \<open>
  What a \<open>throw\<close> carries: an \<open>Error\<close> object with its \<open>name\<close> and \<open>message\<close>, or any
  other value, kept as the string \<open>String(err)\<close> gives for it. A promise that rejects
  and a function that throws are both the \<open>Inl\<close> of a sum.
\<close>

datatype thrown = Error_obj (err_name: string) (err_message: string) | Non_error string

definition new_Error :: "string \<Rightarrow> thrown" where
  "new_Error msg = Error_obj ''Error'' msg"

text \<open>Decimal rendering of a non-negative integer, as a template literal prints it.\<close>

definition digit_char :: "nat \<Rightarrow> char" where
  "digit_char d = ''0123456789'' ! d"

fun show_nat :: "nat \<Rightarrow> string" where
  "show_nat n = (if n < 10 then [digit_char n] else show_nat (n div 10) @ [digit_char (n mod 10)])"

declare show_nat.simps [simp del]

text \<open>\<open>Array.prototype.join\<close> on strings.\<close>

fun join :: "string \<Rightarrow> string list \<Rightarrow> string" where
  "join sep [] = []"
| "join sep [x] = x"
| "join sep (x # y # ys) = x @ sep @ join sep (y # ys)"

text \<open>
  A JavaScript \<open>number\<close>, as far as the code tells numbers apart: a finite one (the
  model takes whole numbers), \<open>NaN\<close> and the two infinities. \<open>JSON.stringify\<close> writes a
  finite number as it is and each of the others as \<open>null\<close>.
\<close>

datatype number = Finite int | NaN | Infinity | Minus_Infinity

fun json_number :: "number \<Rightarrow> number option" where
  "json_number (Finite n) = Some (Finite n)"
| "json_number _ = None"

text \<open>
  A property read from a plain object literal: a string of its own, or a value
  inherited from \<open>Object.prototype\<close>, a function or an object, which is truthy and is
  kept as the string \<open>String\<close> gives for it.
\<close>

datatype js_value = Str string | Inherited string

text \<open>
  The properties every plain object inherits, each with the string form of its value
  (as V8 prints a built-in function; \<open>__proto__\<close> reads the prototype object itself).
\<close>

definition Object_prototype :: "(string \<times> string) list" where
  "Object_prototype =
    [(''constructor'', ''function Object() { [native code] }''),
     (''__defineGetter__'', ''function __defineGetter__() { [native code] }''),
     (''__defineSetter__'', ''function __defineSetter__() { [native code] }''),
     (''hasOwnProperty'', ''function hasOwnProperty() { [native code] }''),
     (''__lookupGetter__'', ''function __lookupGetter__() { [native code] }''),
     (''__lookupSetter__'', ''function __lookupSetter__() { [native code] }''),
     (''isPrototypeOf'', ''function isPrototypeOf() { [native code] }''),
     (''propertyIsEnumerable'', ''function propertyIsEnumerable() { [native code] }''),
     (''toString'', ''function toString() { [native code] }''),
     (''valueOf'', ''function valueOf() { [native code] }''),
     (''__proto__'', ''[object Object]''),
     (''toLocaleString'', ''function toLocaleString() { [native code] }'')]"

text \<open>\<open>obj[key]\<close> for an object literal with the given own properties.\<close>

definition object_get :: "(string \<times> string) list \<Rightarrow> string \<Rightarrow> js_value option" where
  "object_get own k =
    (case map_of own k of
       Some v \<Rightarrow> Some (Str v)
     | None \<Rightarrow> map_option Inherited (map_of Object_prototype k))"

fun js_truthy :: "js_value \<Rightarrow> bool" where
  "js_truthy (Str s) = (s \<noteq> [])"
| "js_truthy (Inherited s) = True"

text \<open>\<open>String(v)\<close>, the message that \<open>new Error(v)\<close> carries.\<close>

fun js_String :: "js_value \<Rightarrow> string" where
  "js_String (Str s) = s"
| "js_String (Inherited s) = s"

text \<open>
  The JSON values of the wire payload. An object is a list of its properties in
  insertion order; \<open>JSON.stringify\<close> prints exactly these.
\<close>

datatype json = JNull | JStr string | JArr "json list" | JObj "(string \<times> json) list"

fun json_keys :: "json \<Rightarrow> string list" where
  "json_keys (JObj ps) = map fst ps"
| "json_keys _ = []"

fun json_get :: "json \<Rightarrow> string \<Rightarrow> json option" where
  "json_get (JObj ps) k = map_of ps k"
| "json_get _ k = None"

section \<open>The report client (coderabbit/lib/client.ts, src/unnamed/part_000)\<close>

definition API_BASE_URL :: string where
  "API_BASE_URL = ''https://api.coderabbit.ai/api''"

definition API_VERSION :: string where
  "API_VERSION = ''v1''"

definition API_TIMEOUT_MS :: nat where
  "API_TIMEOUT_MS = 600000"

record CodeRabbitClientConfig =
  cfg_apiKey :: "string option"
  cfg_baseUrl :: "string option"
  cfg_timeout :: "nat option"

text \<open>The two error bodies the API answers with.\<close>

record CodeRabbitErrorResponse =
  std_message :: string
  std_code :: string
  std_issues :: "string list option"  \<comment> \<open>the \<open>message\<close> of each issue\<close>

record TRPCErrorData =
  data_code :: string
  data_httpStatus :: nat
  data_path :: string

record CodeRabbitTRPCErrorResponse =
  trpc_message :: string
  trpc_code :: int
  trpc_data :: "TRPCErrorData option"

text \<open>
  \<open>ERROR_MESSAGES\<close> and \<open>statusCodeMap\<close> are object literals, given here by their own
  properties. \<open>ERROR_MESSAGES\<close> is read with a string that comes from the response, so
  the inherited properties answer too (\<open>object_get\<close>). \<open>statusCodeMap\<close> is read with
  \<open>response.status\<close>, a number, whose key is its decimal form: no inherited property
  has such a name.
\<close>

definition ERROR_MESSAGES :: "(string \<times> string) list" where
  "ERROR_MESSAGES =
    [(''UNAUTHORIZED'',
      ''CodeRabbit Pro subscription required. Please upgrade your plan at https://coderabbit.ai to use the Reports API.''),
     (''FORBIDDEN'', ''Access denied. Please check your API key permissions.''),
     (''TOO_MANY_REQUESTS'', ''Rate limit exceeded. Please wait a few minutes before trying again.''),
     (''BAD_REQUEST'', ''Invalid request. Please check your report parameters.'')]"

definition statusCodeMap :: "(nat \<times> string) list" where
  "statusCodeMap =
    [(401, ''UNAUTHORIZED''), (403, ''FORBIDDEN''), (429, ''TOO_MANY_REQUESTS''),
     (400, ''BAD_REQUEST'')]"

text \<open>Truthiness of a possibly undefined string: defined and not empty.\<close>

fun truthy :: "string option \<Rightarrow> bool" where
  "truthy None = False"
| "truthy (Some s) = (s \<noteq> [])"

text \<open>\<open>a || b\<close> on strings.\<close>

definition or_else :: "string \<Rightarrow> string \<Rightarrow> string" where
  "or_else a b = (if a \<noteq> [] then a else b)"

text \<open>
  \<open>code && ERROR_MESSAGES[code]\<close>: when the code is defined and not empty and the
  lookup gives a truthy value, the message that \<open>new Error(ERROR_MESSAGES[code])\<close>
  carries; \<open>None\<close> when the test is falsy.
\<close>

definition friendly :: "string option \<Rightarrow> string option" where
  "friendly code =
    (case code of
       None \<Rightarrow> None
     | Some k \<Rightarrow>
         if k = [] then None
         else (case object_get ERROR_MESSAGES k of
                 None \<Rightarrow> None
               | Some v \<Rightarrow> if js_truthy v then Some (js_String v) else None))"

definition status_failed_message :: "nat \<Rightarrow> string" where
  "status_failed_message st = ''API request failed with status '' @ show_nat st"

text \<open>
  The body of \<open>if ('error' in errorData) { ... }\<close>: the message of the error thrown
  for the tRPC envelope.
\<close>

definition trpc_error_message :: "nat \<Rightarrow> CodeRabbitTRPCErrorResponse \<Rightarrow> string" where
  "trpc_error_message st e =
    (let errorCode = map_option data_code (trpc_data e) in
     case friendly errorCode of
       Some m \<Rightarrow> m
     | None \<Rightarrow> or_else (trpc_message e) (status_failed_message st))"

text \<open>
  The rest of the \<open>!response.ok\<close> branch: the message for the flat error body. The
  first two arguments are \<open>stdError.message\<close> and the \<open>message\<close>s of \<open>stdError.issues\<close>.
\<close>

definition flat_error_message :: "nat \<Rightarrow> string \<Rightarrow> string list option \<Rightarrow> string" where
  "flat_error_message st message issues =
    (let mappedCode = map_of statusCodeMap st in
     case friendly mappedCode of
       Some m \<Rightarrow> m
     | None \<Rightarrow>
         (let errorMessage = or_else message (status_failed_message st);
              details = map_option (join '', '') issues
          in case details of
               None \<Rightarrow> errorMessage
             | Some d \<Rightarrow> if d \<noteq> [] then errorMessage @ '': '' @ d else errorMessage))"

definition std_error_message :: "nat \<Rightarrow> CodeRabbitErrorResponse \<Rightarrow> string" where
  "std_error_message st e = flat_error_message st (std_message e) (std_issues e)"

subsection \<open>The transport\<close>

text \<open>
  What \<open>fetch\<close> is called with, and what it answers. The body of the call is the
  request object that \<open>JSON.stringify\<close> serialises. \<open>response.json()\<close> rejects, or gives
  a body of one of the shapes the code casts it to.
\<close>

record fetch_call =
  call_url :: string
  call_method :: string
  call_headers :: "(string \<times> string) list"
  call_body :: json

datatype response_body =
  Trpc_body CodeRabbitTRPCErrorResponse
| Std_body CodeRabbitErrorResponse
| Result_body "ReportResult list"

record Response =
  resp_ok :: bool
  resp_status :: nat
  resp_json :: "thrown + response_body"

text \<open>
  The \<open>fetch\<close> promise rejects (\<open>Inl\<close>) or resolves with a response. A fetch that the
  abort signal cancels rejects with an error named \<open>AbortError\<close>.
\<close>

type_synonym transport = "fetch_call \<Rightarrow> thrown + Response"

subsection \<open>The client\<close>

record CodeRabbitClient =
  apiKey :: "string option"
  baseUrl :: string
  timeout :: nat

text \<open>
  Where the constructor looks for the key when the configuration gives none:
  \<open>process.env\<close>, then \<open>Deno.env\<close>. Each is \<open>None\<close> when the runtime does not have
  it, and otherwise holds the variable's value, if it is set.
\<close>

record runtime_env =
  process_env :: "string option option"
  deno_env :: "string option option"

definition getApiKeyFromEnv :: "runtime_env \<Rightarrow> string option" where
  "getApiKeyFromEnv env =
    (case process_env env of
       Some v \<Rightarrow> v
     | None \<Rightarrow> (case deno_env env of Some v \<Rightarrow> v | None \<Rightarrow> None))"

text \<open>The constructor; \<open>config?.f ?? d\<close> falls back only when \<open>f\<close> is absent.\<close>

definition createCodeRabbitClient ::
  "runtime_env \<Rightarrow> CodeRabbitClientConfig option \<Rightarrow> CodeRabbitClient" where
  "createCodeRabbitClient env config =
    \<lparr> apiKey =
        (case Option.bind config cfg_apiKey of Some k \<Rightarrow> Some k | None \<Rightarrow> getApiKeyFromEnv env),
      baseUrl = (case Option.bind config cfg_baseUrl of Some u \<Rightarrow> u | None \<Rightarrow> API_BASE_URL),
      timeout = (case Option.bind config cfg_timeout of Some t \<Rightarrow> t | None \<Rightarrow> API_TIMEOUT_MS) \<rparr>"

definition isConfigured :: "CodeRabbitClient \<Rightarrow> bool" where
  "isConfigured c = (case apiKey c of None \<Rightarrow> False | Some k \<Rightarrow> length k > 0)"

text \<open>\<open>...(v && { k: v })\<close>: the property is added when the value is truthy.\<close>

definition spread_if :: "string \<Rightarrow> string option \<Rightarrow> (string \<times> json) list" where
  "spread_if k v = (case v of None \<Rightarrow> [] | Some s \<Rightarrow> if s \<noteq> [] then [(k, JStr s)] else [])"

definition FilterConfig_json :: "FilterConfig \<Rightarrow> json" where
  "FilterConfig_json f =
    JObj [(''parameter'', JStr (FilterParameter_str (fc_parameter f))),
          (''operator'', JStr (FilterOperator_str (fc_operator f))),
          (''values'', JArr (map JStr (fc_values f)))]"

definition requestBody :: "ReportGenerateRequest \<Rightarrow> json" where
  "requestBody request =
    JObj ([(''from'', JStr (req_from request)),
           (''to'', JStr (req_to request)),
           (''scheduleRange'',
              JStr (case req_scheduleRange request of Some s \<Rightarrow> s | None \<Rightarrow> ''Dates'')),
           (''parameters'',
              JArr (map FilterConfig_json
                (case req_parameters request of Some ps \<Rightarrow> ps | None \<Rightarrow> [])))]
          @ spread_if ''prompt'' (req_prompt request)
          @ spread_if ''promptTemplate'' (map_option PromptTemplate_str (req_promptTemplate request))
          @ spread_if ''groupBy'' (map_option GroupBy_str (req_groupBy request))
          @ spread_if ''subgroupBy'' (map_option GroupBy_str (req_subgroupBy request))
          @ spread_if ''orgId'' (req_orgId request))"

definition the_fetch_call :: "CodeRabbitClient \<Rightarrow> ReportGenerateRequest \<Rightarrow> fetch_call" where
  "the_fetch_call c request =
    \<lparr> call_url = baseUrl c @ ''/'' @ API_VERSION @ ''/report.generate'',
      call_method = ''POST'',
      call_headers =
        [(''Content-Type'', ''application/json''),
         (''x-coderabbitai-api-key'', (case apiKey c of Some k \<Rightarrow> k | None \<Rightarrow> []))],
      call_body = requestBody request \<rparr>"

text \<open>
  \<open>this.timeout / 1000\<close> as the template literal prints it, for a timeout of a whole
  number of milliseconds (of at most fifteen digits): the quotient, then the fraction
  without trailing zeros.
\<close>

definition show_seconds :: "nat \<Rightarrow> string" where
  "show_seconds ms =
    (let q = ms div 1000; r = ms mod 1000 in
     if r = 0 then show_nat q
     else show_nat q @ ''.'' @
       (if r mod 100 = 0 then [digit_char (r div 100)]
        else if r mod 10 = 0 then [digit_char (r div 100), digit_char (r div 10 mod 10)]
        else [digit_char (r div 100), digit_char (r div 10 mod 10), digit_char (r mod 10)]))"

definition not_configured_message :: string where
  "not_configured_message =
    ''CODERABBIT_API_KEY not configured. Set environment variable or pass apiKey in config.''"

definition timed_out_message :: "nat \<Rightarrow> string" where
  "timed_out_message ms = ''CodeRabbit report generation timed out after '' @ show_seconds ms @ ''s''"

text \<open>The \<open>catch\<close> block of \<open>generateReport\<close>: an abort becomes the timeout error.\<close>

definition catch_block :: "CodeRabbitClient \<Rightarrow> thrown \<Rightarrow> thrown" where
  "catch_block c err =
    (case err of
       Error_obj n m \<Rightarrow>
         if n = ''AbortError'' then new_Error (timed_out_message (timeout c)) else err
     | Non_error v \<Rightarrow> err)"

text \<open>
  The \<open>try\<close> block after \<open>fetch\<close> has resolved. A body without \<open>error\<close> that is not
  the flat shape has no \<open>message\<close> and no \<open>issues\<close>; reading \<open>result.data\<close> of a body
  without \<open>result\<close> is a \<open>TypeError\<close>.
\<close>

definition read_response :: "Response \<Rightarrow> thrown + ReportResult list" where
  "read_response response =
    (case resp_json response of
       Inl err \<Rightarrow> Inl err
     | Inr body \<Rightarrow>
         if \<not> resp_ok response then
           (case body of
              Trpc_body e \<Rightarrow> Inl (new_Error (trpc_error_message (resp_status response) e))
            | Std_body e \<Rightarrow> Inl (new_Error (std_error_message (resp_status response) e))
            | Result_body rs \<Rightarrow>
                Inl (new_Error (flat_error_message (resp_status response) [] None)))
         else
           (case body of
              Result_body rs \<Rightarrow> Inr rs
            | _ \<Rightarrow>
                Inl (Error_obj ''TypeError''
                      ''Cannot read properties of undefined (reading 'data')'')))"

text \<open>
  \<open>generateReport\<close>: the result of the promise, and the calls made to the transport,
  in order.
\<close>

definition generateReport ::
  "CodeRabbitClient \<Rightarrow> transport \<Rightarrow> ReportGenerateRequest \<Rightarrow>
     (thrown + ReportResult list) \<times> fetch_call list" where
  "generateReport c fetch request =
    (if \<not> isConfigured c then (Inl (new_Error not_configured_message), [])
     else
       (let call = the_fetch_call c request in
        case fetch call of
          Inl err \<Rightarrow> (Inl (catch_block c err), [call])
        | Inr response \<Rightarrow>
            (case read_response response of
               Inl err \<Rightarrow> (Inl (catch_block c err), [call])
             | Inr rs \<Rightarrow> (Inr rs, [call]))))"

section \<open>Stored reports and the localStorage adapter (src/unnamed/part_002)\<close>

record StoredReport =
  report_id :: string
  fromDate :: string
  toDate :: string
  promptTemplate :: "string option"
  prompt :: "string option"
  customPrompt :: "string option"
  groupBy :: "string option"
  subgroupBy :: "string option"
  orgId :: "string option"
  parameters :: "FilterConfig list option"
  results :: "ReportResult list"
  status :: ReportStatus
  error :: "string option"
  createdAt :: nat
  durationMs :: "number option"

text \<open>
  The argument of \<open>create\<close>, \<open>Omit<StoredReport, 'id' | 'createdAt'>\<close>. \<open>results\<close> and
  \<open>status\<close> are optional here because \<open>create\<close> supplies a default for each with \<open>||\<close>.
\<close>

record NewReport =
  new_fromDate :: string
  new_toDate :: string
  new_promptTemplate :: "string option"
  new_prompt :: "string option"
  new_customPrompt :: "string option"
  new_groupBy :: "string option"
  new_subgroupBy :: "string option"
  new_orgId :: "string option"
  new_parameters :: "FilterConfig list option"
  new_results :: "ReportResult list option"
  new_status :: "ReportStatus option"
  new_error :: "string option"
  new_durationMs :: "number option"

text \<open>
  What \<open>JSON.parse(JSON.stringify(report))\<close> gives: the report with a duration that is
  not finite turned into \<open>null\<close>. Every other field is a string, a whole number or a list
  of such, or is absent, and comes back as it was. \<open>None\<close> stands for both \<open>null\<close> and an
  absent property.
\<close>

definition json_report :: "StoredReport \<Rightarrow> StoredReport" where
  "json_report r = r\<lparr>durationMs := Option.bind (durationMs r) json_number\<rparr>"

text \<open>
  The browser's \<open>localStorage\<close> as the adapter sees it: missing (on a server), or the
  item under the adapter's key, which is absent or holds a text, kept as the list that
  \<open>JSON.parse\<close> reads from it. Writing is taken to succeed whenever \<open>localStorage\<close> is
  there.
\<close>

datatype local_storage = No_localStorage | Item "StoredReport list option"

definition no_localStorage_message :: string where
  "no_localStorage_message =
    ''localStorage is not available in this environment. '' @
    ''Ensure this adapter is only used on the client side (e.g., inside useEffect).''"

fun ensureBrowser :: "local_storage \<Rightarrow> thrown + unit" where
  "ensureBrowser No_localStorage = Inl (new_Error no_localStorage_message)"
| "ensureBrowser (Item _) = Inr ()"

fun getReports :: "local_storage \<Rightarrow> thrown + StoredReport list" where
  "getReports No_localStorage = Inl (new_Error no_localStorage_message)"
| "getReports (Item None) = Inr []"
| "getReports (Item (Some reports)) = Inr reports"

fun saveReports :: "StoredReport list \<Rightarrow> local_storage \<Rightarrow> (thrown + unit) \<times> local_storage" where
  "saveReports reports No_localStorage = (Inl (new_Error no_localStorage_message), No_localStorage)"
| "saveReports reports (Item _) = (Inr (), Item (Some (map json_report reports)))"

text \<open>
  \<open>Date.now()\<close> and \<open>Math.random().toString(36).slice(2, 9)\<close> are inputs of the model:
  \<open>create\<close> reads the clock twice, once for the identifier and once for \<open>createdAt\<close>.
\<close>

definition make_id :: "nat \<Rightarrow> string \<Rightarrow> string" where
  "make_id now rnd = ''report_'' @ show_nat now @ ''_'' @ rnd"

definition new_StoredReport :: "string \<Rightarrow> nat \<Rightarrow> NewReport \<Rightarrow> StoredReport" where
  "new_StoredReport ident now d =
    \<lparr> report_id = ident,
      fromDate = new_fromDate d,
      toDate = new_toDate d,
      promptTemplate = new_promptTemplate d,
      prompt = new_prompt d,
      customPrompt = new_customPrompt d,
      groupBy = new_groupBy d,
      subgroupBy = new_subgroupBy d,
      orgId = new_orgId d,
      parameters = new_parameters d,
      results = (case new_results d of Some rs \<Rightarrow> rs | None \<Rightarrow> []),
      status = (case new_status d of Some st \<Rightarrow> st | None \<Rightarrow> pending),
      error = new_error d,
      createdAt = now,
      durationMs = new_durationMs d \<rparr>"

definition LocalStorageAdapter_create ::
  "nat \<Rightarrow> string \<Rightarrow> nat \<Rightarrow> NewReport \<Rightarrow> local_storage \<Rightarrow> (thrown + string) \<times> local_storage" where
  "LocalStorageAdapter_create now1 rnd now2 d ls =
    (case getReports ls of
       Inl err \<Rightarrow> (Inl err, ls)
     | Inr reports \<Rightarrow>
         (let ident = make_id now1 rnd;
              report = new_StoredReport ident now2 d
          in case saveReports (reports @ [report]) ls of
               (Inl err, ls') \<Rightarrow> (Inl err, ls')
             | (Inr _, ls') \<Rightarrow> (Inr ident, ls')))"

text \<open>
  \<open>reports.find((r) => r.id === id)\<close> gives the first report with the identifier, and
  the assignments that follow change that report in place.
\<close>

fun update_first :: "string \<Rightarrow> (StoredReport \<Rightarrow> StoredReport) \<Rightarrow> StoredReport list \<Rightarrow> StoredReport list" where
  "update_first ident f [] = []"
| "update_first ident f (r # rs) =
    (if report_id r = ident then f r # rs else r # update_first ident f rs)"

definition not_found_message :: "string \<Rightarrow> string" where
  "not_found_message ident = ''Report not found: '' @ ident"

definition LocalStorageAdapter_updateSuccess ::
  "string \<Rightarrow> ReportResult list \<Rightarrow> number \<Rightarrow> local_storage \<Rightarrow> (thrown + unit) \<times> local_storage" where
  "LocalStorageAdapter_updateSuccess ident rs ms ls =
    (case getReports ls of
       Inl err \<Rightarrow> (Inl err, ls)
     | Inr reports \<Rightarrow>
         (case find (\<lambda>r. report_id r = ident) reports of
            None \<Rightarrow> (Inl (new_Error (not_found_message ident)), ls)
          | Some _ \<Rightarrow>
              saveReports
                (update_first ident
                   (\<lambda>r. r\<lparr>results := rs, status := completed, durationMs := Some ms\<rparr>) reports)
                ls))"

definition LocalStorageAdapter_updateFailure ::
  "string \<Rightarrow> string \<Rightarrow> number \<Rightarrow> local_storage \<Rightarrow> (thrown + unit) \<times> local_storage" where
  "LocalStorageAdapter_updateFailure ident msg ms ls =
    (case getReports ls of
       Inl err \<Rightarrow> (Inl err, ls)
     | Inr reports \<Rightarrow>
         (case find (\<lambda>r. report_id r = ident) reports of
            None \<Rightarrow> (Inl (new_Error (not_found_message ident)), ls)
          | Some _ \<Rightarrow>
              saveReports
                (update_first ident
                   (\<lambda>r. r\<lparr>status := failed, error := Some msg, durationMs := Some ms\<rparr>) reports)
                ls))"

definition LocalStorageAdapter_get :: "string \<Rightarrow> local_storage \<Rightarrow> thrown + StoredReport option" where
  "LocalStorageAdapter_get ident ls =
    (case getReports ls of
       Inl err \<Rightarrow> Inl err
     | Inr reports \<Rightarrow> Inr (find (\<lambda>r. report_id r = ident) reports))"

definition LocalStorageAdapter_delete :: "string \<Rightarrow> local_storage \<Rightarrow> (thrown + unit) \<times> local_storage" where
  "LocalStorageAdapter_delete ident ls =
    (case getReports ls of
       Inl err \<Rightarrow> (Inl err, ls)
     | Inr reports \<Rightarrow> saveReports (filter (\<lambda>r. report_id r \<noteq> ident) reports) ls)"

section \<open>The storage adapter interface and the hook (coderabbit/hooks/use-coderabbit.ts)\<close>

text \<open>
  \<open>ReportStorageAdapter\<close>: the operations the hook calls, over the state \<open>'s\<close> of the
  backend. A promise that rejects is \<open>Inl\<close>.
\<close>

record 's ReportStorageAdapter =
  ad_create :: "NewReport \<Rightarrow> 's \<Rightarrow> (thrown + string) \<times> 's"
  ad_updateSuccess :: "string \<Rightarrow> ReportResult list \<Rightarrow> number \<Rightarrow> 's \<Rightarrow> (thrown + unit) \<times> 's"
  ad_updateFailure :: "string \<Rightarrow> string \<Rightarrow> number \<Rightarrow> 's \<Rightarrow> (thrown + unit) \<times> 's"

text \<open>
  The localStorage adapter as an instance; the clock readings and the random suffix
  that its \<open>create\<close> will draw are fixed beforehand.
\<close>

definition LocalStorageAdapter :: "nat \<Rightarrow> string \<Rightarrow> nat \<Rightarrow> local_storage ReportStorageAdapter" where
  "LocalStorageAdapter now1 rnd now2 =
    \<lparr> ad_create = LocalStorageAdapter_create now1 rnd now2,
      ad_updateSuccess = LocalStorageAdapter_updateSuccess,
      ad_updateFailure = LocalStorageAdapter_updateFailure \<rparr>"

text \<open>
  The hook's options. A callback that is given is a function of its argument that
  returns normally (\<open>None\<close>) or throws; what else a callback does is outside the model.
\<close>

record 's UseCodeRabbitOptions =
  opt_storage :: "'s ReportStorageAdapter option"
  opt_onSuccess :: "(string option \<Rightarrow> thrown option) option"
  opt_onError :: "(string \<Rightarrow> thrown option) option"

text \<open>
  What one call of the hook's \<open>generateReport\<close> leaves behind: how its promise
  settles, the two pieces of React state, the callbacks invoked, in order and each with
  its argument, and the state of the storage backend.
\<close>

datatype callback_event = OnSuccess "string option" | OnError string

record 's hook_outcome =
  returned :: "thrown + string option"
  isGenerating :: bool
  error_state :: "string option"
  callbacks :: "callback_event list"
  storage_state :: "'s"

definition pending_record :: "ReportGenerateRequest \<Rightarrow> NewReport" where
  "pending_record request =
    \<lparr> new_fromDate = req_from request,
      new_toDate = req_to request,
      new_promptTemplate = map_option PromptTemplate_str (req_promptTemplate request),
      new_prompt = req_prompt request,
      new_customPrompt = None,
      new_groupBy = map_option GroupBy_str (req_groupBy request),
      new_subgroupBy = map_option GroupBy_str (req_subgroupBy request),
      new_orgId = req_orgId request,
      new_parameters = req_parameters request,
      new_results = Some [],
      new_status = Some pending,
      new_error = None,
      new_durationMs = None \<rparr>"

text \<open>\<open>err instanceof Error ? err.message : String(err)\<close>\<close>

fun error_text :: "thrown \<Rightarrow> string" where
  "error_text (Error_obj n m) = m"
| "error_text (Non_error v) = v"

text \<open>\<open>Date.now() - startTime\<close>, for two readings of the clock.\<close>

definition elapsed :: "nat \<Rightarrow> nat \<Rightarrow> number" where
  "elapsed startTime now = Finite (int now - int startTime)"

text \<open>
  The three places where the hook calls the storage: \<open>create\<close> when there is a
  storage, and each of the updates when there is a storage and the identifier is truthy
  (\<open>options?.storage && reportId\<close>). Where no call is due, nothing happens.
\<close>

definition create_pending ::
  "'s UseCodeRabbitOptions \<Rightarrow> ReportGenerateRequest \<Rightarrow> 's \<Rightarrow> (thrown + string option) \<times> 's" where
  "create_pending options request s =
    (case opt_storage options of
       None \<Rightarrow> (Inr None, s)
     | Some storage \<Rightarrow>
         (case ad_create storage (pending_record request) s of
            (Inl err, s') \<Rightarrow> (Inl err, s')
          | (Inr ident, s') \<Rightarrow> (Inr (Some ident), s')))"

definition write_success ::
  "'s UseCodeRabbitOptions \<Rightarrow> string option \<Rightarrow> ReportResult list \<Rightarrow> number \<Rightarrow> 's \<Rightarrow>
     (thrown + unit) \<times> 's" where
  "write_success options reportId rs ms s =
    (case (opt_storage options, reportId) of
       (Some storage, Some ident) \<Rightarrow>
         if ident \<noteq> [] then ad_updateSuccess storage ident rs ms s else (Inr (), s)
     | _ \<Rightarrow> (Inr (), s))"

definition write_failure ::
  "'s UseCodeRabbitOptions \<Rightarrow> string option \<Rightarrow> string \<Rightarrow> number \<Rightarrow> 's \<Rightarrow>
     (thrown + unit) \<times> 's" where
  "write_failure options reportId msg ms s =
    (case (opt_storage options, reportId) of
       (Some storage, Some ident) \<Rightarrow>
         if ident \<noteq> [] then ad_updateFailure storage ident msg ms s else (Inr (), s)
     | _ \<Rightarrow> (Inr (), s))"

text \<open>
  The \<open>catch\<close> block followed by \<open>finally\<close>. \<open>now\<close> is the clock when the block is
  entered and \<open>log\<close> the callbacks invoked before. \<open>updateFailure\<close> and the error
  callback are called inside the block, outside any \<open>try\<close>: when one of them throws,
  the hook's promise rejects with what it threw, after \<open>finally\<close> has run.
\<close>

definition hook_catch ::
  "'s UseCodeRabbitOptions \<Rightarrow> nat \<Rightarrow> nat \<Rightarrow> string option \<Rightarrow> thrown \<Rightarrow>
     callback_event list \<Rightarrow> 's \<Rightarrow> 's hook_outcome" where
  "hook_catch options startTime now reportId err log s =
    (let durationMs = elapsed startTime now;
         errorMsg = error_text err
     in case write_failure options reportId errorMsg durationMs s of
          (Inl err2, s') \<Rightarrow>
            \<lparr> returned = Inl err2, isGenerating = False, error_state = Some errorMsg,
              callbacks = log, storage_state = s' \<rparr>
        | (Inr _, s') \<Rightarrow>
            (case opt_onError options of
               None \<Rightarrow>
                 \<lparr> returned = Inr None, isGenerating = False, error_state = Some errorMsg,
                   callbacks = log, storage_state = s' \<rparr>
             | Some onError \<Rightarrow>
                 \<lparr> returned = (case onError errorMsg of None \<Rightarrow> Inr None | Some err3 \<Rightarrow> Inl err3),
                   isGenerating = False, error_state = Some errorMsg,
                   callbacks = log @ [OnError errorMsg], storage_state = s' \<rparr>))"

text \<open>
  The hook's \<open>generateReport\<close>. \<open>client\<close> is \<open>client.generateReport\<close>; \<open>startTime\<close>,
  \<open>t_done\<close> and \<open>t_catch\<close> are the readings of \<open>Date.now()\<close> at the start, after the client
  has answered, and on entering the \<open>catch\<close> block. The success callback is called
  inside the \<open>try\<close>: what it throws is caught like any other exception.
\<close>

definition useCodeRabbit_generateReport ::
  "'s UseCodeRabbitOptions \<Rightarrow> (ReportGenerateRequest \<Rightarrow> thrown + ReportResult list) \<Rightarrow>
     nat \<Rightarrow> nat \<Rightarrow> nat \<Rightarrow> ReportGenerateRequest \<Rightarrow> 's \<Rightarrow> 's hook_outcome" where
  "useCodeRabbit_generateReport options client startTime t_done t_catch request s =
    (case create_pending options request s of
       (Inl err, s1) \<Rightarrow> hook_catch options startTime t_catch None err [] s1
     | (Inr reportId, s1) \<Rightarrow>
         (case client request of
            Inl err \<Rightarrow> hook_catch options startTime t_catch reportId err [] s1
          | Inr rs \<Rightarrow>
              (case write_success options reportId rs (elapsed startTime t_done) s1 of
                 (Inl err, s2) \<Rightarrow> hook_catch options startTime t_catch reportId err [] s2
               | (Inr _, s2) \<Rightarrow>
                   (case opt_onSuccess options of
                      None \<Rightarrow>
                        \<lparr> returned = Inr reportId, isGenerating = False, error_state = None,
                          callbacks = [], storage_state = s2 \<rparr>
                    | Some onSuccess \<Rightarrow>
                        (case onSuccess reportId of
                           None \<Rightarrow>
                             \<lparr> returned = Inr reportId, isGenerating = False,
                               error_state = None, callbacks = [OnSuccess reportId],
                               storage_state = s2 \<rparr>
                         | Some err \<Rightarrow>
                             hook_catch options startTime t_catch reportId err
                               [OnSuccess reportId] s2)))))"

section \<open>Vocabulary of the properties\<close>

text \<open>The error codes that have a friendly message.\<close>

definition known_codes :: "string list" where
  "known_codes = [''UNAUTHORIZED'', ''FORBIDDEN'', ''TOO_MANY_REQUESTS'', ''BAD_REQUEST'']"

text \<open>The values of a JSON object's properties.\<close>

fun json_values :: "json \<Rightarrow> json list" where
  "json_values (JObj ps) = map snd ps"
| "json_values _ = []"

text \<open>
  A call of one of the localStorage adapter's operations, with the clock readings and
  the random suffix that \<open>create\<close> draws, and the storage after a sequence of such calls.
  A call that throws leaves the storage as it was.
\<close>

datatype adapter_op =
  Create nat string nat NewReport
| UpdateSuccess string "ReportResult list" number
| UpdateFailure string string number
| Delete string

fun apply_op :: "adapter_op \<Rightarrow> local_storage \<Rightarrow> local_storage" where
  "apply_op (Create now1 rnd now2 d) ls = snd (LocalStorageAdapter_create now1 rnd now2 d ls)"
| "apply_op (UpdateSuccess ident rs ms) ls = snd (LocalStorageAdapter_updateSuccess ident rs ms ls)"
| "apply_op (UpdateFailure ident msg ms) ls = snd (LocalStorageAdapter_updateFailure ident msg ms ls)"
| "apply_op (Delete ident) ls = snd (LocalStorageAdapter_delete ident ls)"

fun run_ops :: "adapter_op list \<Rightarrow> local_storage \<Rightarrow> local_storage" where
  "run_ops [] ls = ls"
| "run_ops (a # as) ls = run_ops as (apply_op a ls)"


text \<open>The status of the report that \<open>get\<close> finds, if it finds one.\<close>

definition status_of :: "string \<Rightarrow> local_storage \<Rightarrow> ReportStatus option" where
  "status_of ident ls =
    (case LocalStorageAdapter_get ident ls of
       Inr (Some r) \<Rightarrow> Some (status r)
     | _ \<Rightarrow> None)"

text \<open>
  A \<open>create\<close> input as the hook builds it: pending (or no status), with no error and
  no duration, and with no results.
\<close>

definition pending_input :: "NewReport \<Rightarrow> bool" where
  "pending_input d =
    ((new_status d = None \<or> new_status d = Some pending) \<and> new_error d = None \<and>
     new_durationMs d = None \<and> (new_results d = None \<or> new_results d = Some []))"

fun creates_pending :: "adapter_op \<Rightarrow> bool" where
  "creates_pending (Create now1 rnd now2 d) = pending_input d"
| "creates_pending _ = True"

text \<open>An update that is given a finite duration, as the hook gives.\<close>

fun finite_update :: "adapter_op \<Rightarrow> bool" where
  "finite_update (UpdateSuccess ident rs (Finite n)) = True"
| "finite_update (UpdateSuccess ident rs ms) = False"
| "finite_update (UpdateFailure ident msg (Finite n)) = True"
| "finite_update (UpdateFailure ident msg ms) = False"
| "finite_update _ = True"

text \<open>
  What holds of every stored report under histories of such calls: the duration is
  unset exactly while the report is pending, and is finite when set; a pending report
  has neither results nor an error; a failed report has an error.
\<close>

definition report_ok :: "StoredReport \<Rightarrow> bool" where
  "report_ok r =
    ((durationMs r = None) = (status r = pending) \<and>
     json_report r = r \<and>
     (if status r = pending then results r = [] \<and> error r = None else True) \<and>
     (if status r = failed then error r \<noteq> None else True))"

definition all_reports_ok :: "local_storage \<Rightarrow> bool" where
  "all_reports_ok ls =
    (case getReports ls of Inl err \<Rightarrow> True | Inr reports \<Rightarrow> list_all report_ok reports)"

text \<open>Exactly one of: the results are not empty, the error is not null.\<close>

definition exactly_one :: "StoredReport \<Rightarrow> bool" where
  "exactly_one r = ((results r \<noteq> []) \<noteq> (error r \<noteq> None))"

section \<open>Sample inputs\<close>

definition client0 :: CodeRabbitClient where
  "client0 = \<lparr> apiKey = Some ''key'', baseUrl = API_BASE_URL, timeout = API_TIMEOUT_MS \<rparr>"

definition no_env :: runtime_env where
  "no_env = \<lparr> process_env = None, deno_env = None \<rparr>"

definition request0 :: ReportGenerateRequest where
  "request0 =
    \<lparr> req_scheduleRange = None, req_from = ''2024-01-01'', req_to = ''2024-01-31'',
      req_prompt = None, req_promptTemplate = None, req_parameters = None,
      req_groupBy = None, req_subgroupBy = None, req_orgId = None \<rparr>"

text \<open>A transport that answers every call with the given status and body.\<close>

definition answer :: "nat \<Rightarrow> response_body \<Rightarrow> transport" where
  "answer st body =
    (\<lambda>call. Inr \<lparr> resp_ok = (200 \<le> st \<and> st \<le> 299), resp_status = st, resp_json = Inr body \<rparr>)"

text \<open>A client call that fails with the given message.\<close>

definition failing_client :: "string \<Rightarrow> ReportGenerateRequest \<Rightarrow> thrown + ReportResult list" where
  "failing_client msg = (\<lambda>request. Inl (new_Error msg))"

definition input0 :: NewReport where
  "input0 = pending_record request0"

definition result0 :: ReportResult where
  "result0 = \<lparr> rr_group = ''team'', rr_report = ''# Report'' \<rparr>"

text \<open>A store with one pending report, and the same store after the report has failed.\<close>

definition ident0 :: string where
  "ident0 = make_id 17 ''abc1234''"

definition store_pending :: local_storage where
  "store_pending = snd (LocalStorageAdapter_create 17 ''abc1234'' 17 input0 (Item None))"

definition store_failed :: local_storage where
  "store_failed = snd (LocalStorageAdapter_updateFailure ident0 ''boom'' (Finite 5) store_pending)"

text \<open>
  Two backends over a state that holds nothing: on both \<open>create\<close> answers with an
  identifier; on the first every update succeeds, on the second \<open>updateFailure\<close>
  rejects, as the database adapters do when their query fails.
\<close>

definition quiet_adapter :: "unit ReportStorageAdapter" where
  "quiet_adapter =
    \<lparr> ad_create = (\<lambda>d s. (Inr ''report_1'', s)),
      ad_updateSuccess = (\<lambda>ident rs ms s. (Inr (), s)),
      ad_updateFailure = (\<lambda>ident msg ms s. (Inr (), s)) \<rparr>"


text \<open>An error callback that returns normally.\<close>

definition quiet_onError :: "string \<Rightarrow> thrown option" where
  "quiet_onError = (\<lambda>msg. None)"



section \<open>Properties of the client\<close>

lemma friendly_Some:
  "friendly (Some k) =
     (if k \<in> set known_codes then map_of ERROR_MESSAGES k else map_of Object_prototype k)"
  by (simp add: friendly_def object_get_def known_codes_def ERROR_MESSAGES_def
      Object_prototype_def)

lemma friendly_None: "friendly None = None"
  by (simp add: friendly_def)

lemma catch_block_new_Error: "catch_block c (new_Error m) = new_Error m"
  by (simp add: catch_block_def new_Error_def)

lemma generateReport_not_ok:
  assumes "isConfigured c"
    and "fetch (the_fetch_call c request) = Inr response"
    and "read_response response = Inl (new_Error m)"
  shows "generateReport c fetch request = (Inl (new_Error m), [the_fetch_call c request])"
  using assms by (simp add: generateReport_def Let_def catch_block_new_Error)

lemma statusCodeMap_cases:
  "map_of statusCodeMap st =
    (if st = 401 then Some ''UNAUTHORIZED'' else if st = 403 then Some ''FORBIDDEN''
     else if st = 429 then Some ''TOO_MANY_REQUESTS'' else if st = 400 then Some ''BAD_REQUEST''
     else None)"
  by (simp add: statusCodeMap_def)

lemma show_nat_500: "show_nat 500 = ''500''"
  by (simp add: show_nat.simps digit_char_def)

text \<open>
  C1 (as amended). A response that is not ok and whose body is the flat error shape
  makes \<open>generateReport\<close> fail with: the friendly message of the code that the status
  maps to, for 401, 403, 429 and 400, whatever the body says; for any other status the
  body's \<open>message\<close>, or the request-failed-with-status-N text when that message is empty,
  followed by a colon and the comma-joined issue messages when that joined text is not
  empty.
\<close>

theorem flat_error_surfaced:
  assumes "isConfigured c"
    and "fetch (the_fetch_call c request) = Inr response"
    and "\<not> resp_ok response"
    and "resp_json response = Inr (Std_body e)"
  shows "fst (generateReport c fetch request) =
    Inl (new_Error
      (if resp_status response = 401 then the (map_of ERROR_MESSAGES ''UNAUTHORIZED'')
       else if resp_status response = 403 then the (map_of ERROR_MESSAGES ''FORBIDDEN'')
       else if resp_status response = 429 then the (map_of ERROR_MESSAGES ''TOO_MANY_REQUESTS'')
       else if resp_status response = 400 then the (map_of ERROR_MESSAGES ''BAD_REQUEST'')
       else
         (if std_message e \<noteq> [] then std_message e
          else ''API request failed with status '' @ show_nat (resp_status response))
         @ (case std_issues e of
              None \<Rightarrow> []
            | Some ms \<Rightarrow> if join '', '' ms \<noteq> [] then '': '' @ join '', '' ms else [])))"
proof -
  have "read_response response = Inl (new_Error (std_error_message (resp_status response) e))"
    using assms(3,4) by (simp add: read_response_def)
  then have g: "fst (generateReport c fetch request) =
      Inl (new_Error (std_error_message (resp_status response) e))"
    using generateReport_not_ok [of c fetch request response] assms(1,2) by simp
  have "std_error_message st e =
      (if st = 401 then the (map_of ERROR_MESSAGES ''UNAUTHORIZED'')
       else if st = 403 then the (map_of ERROR_MESSAGES ''FORBIDDEN'')
       else if st = 429 then the (map_of ERROR_MESSAGES ''TOO_MANY_REQUESTS'')
       else if st = 400 then the (map_of ERROR_MESSAGES ''BAD_REQUEST'')
       else
         (if std_message e \<noteq> [] then std_message e
          else ''API request failed with status '' @ show_nat st)
         @ (case std_issues e of
              None \<Rightarrow> []
            | Some ms \<Rightarrow> if join '', '' ms \<noteq> [] then '': '' @ join '', '' ms else []))" for st
    by (cases "std_issues e")
       (simp_all add: std_error_message_def flat_error_message_def statusCodeMap_cases
          friendly_Some friendly_None known_codes_def ERROR_MESSAGES_def or_else_def
          status_failed_message_def)
  with g show ?thesis by simp
qed

text \<open>
  The specification's own example: status 500 with message \<open>bad\<close> and the issues \<open>a\<close>
  and \<open>b\<close> surfaces \<open>bad: a, b\<close>.
\<close>

theorem flat_error_surfaced_witness:
  "isConfigured client0 \<and>
   fst (generateReport client0
         (answer 500 (Std_body \<lparr> std_message = ''bad'', std_code = ''INTERNAL'',
                                  std_issues = Some [''a'', ''b''] \<rparr>)) request0) =
     Inl (Error_obj ''Error'' ''bad: a, b'')"
  using flat_error_surfaced [of client0
      "answer 500 (Std_body \<lparr> std_message = ''bad'', std_code = ''INTERNAL'',
                                  std_issues = Some [''a'', ''b''] \<rparr>)" request0
      "\<lparr> resp_ok = False, resp_status = 500,
         resp_json = Inr (Std_body \<lparr> std_message = ''bad'', std_code = ''INTERNAL'',
                                      std_issues = Some [''a'', ''b''] \<rparr>) \<rparr>"
      "\<lparr> std_message = ''bad'', std_code = ''INTERNAL'', std_issues = Some [''a'', ''b''] \<rparr>"]
  by (simp add: client0_def isConfigured_def answer_def new_Error_def)

text \<open>
  C1 as stated fails: with status 500, an empty \<open>message\<close> and no issues, the message
  surfaced is not the body's raw \<open>message\<close> but the request-failed text.
\<close>

theorem flat_error_empty_message_counterexample:
  "fst (generateReport client0
         (answer 500 (Std_body \<lparr> std_message = [], std_code = ''INTERNAL'', std_issues = None \<rparr>))
         request0) =
     Inl (new_Error ''API request failed with status 500'') \<and>
   fst (generateReport client0
         (answer 500 (Std_body \<lparr> std_message = [], std_code = ''INTERNAL'', std_issues = None \<rparr>))
         request0) \<noteq>
     Inl (new_Error
           (std_message \<lparr> std_message = [], std_code = ''INTERNAL'', std_issues = None \<rparr>))"
  by (simp add: generateReport_def client0_def isConfigured_def answer_def read_response_def
      std_error_message_def flat_error_message_def statusCodeMap_def friendly_def or_else_def
      status_failed_message_def show_nat_500 catch_block_def new_Error_def Let_def)

text \<open>
  What the tRPC branch surfaces, for every envelope: the friendly message of a known
  code; for a code that names a property inherited from \<open>Object.prototype\<close>, the
  string form of that property; otherwise the envelope's message, or the
  request-failed text when that message is empty.
\<close>

lemma trpc_error_message_cases:
  "trpc_error_message st e =
    (case trpc_data e of
       Some d \<Rightarrow>
         if data_code d \<in> set known_codes then the (map_of ERROR_MESSAGES (data_code d))
         else if data_code d \<in> set (map fst Object_prototype)
         then the (map_of Object_prototype (data_code d))
         else if trpc_message e \<noteq> [] then trpc_message e
         else ''API request failed with status '' @ show_nat st
     | None \<Rightarrow>
         if trpc_message e \<noteq> [] then trpc_message e
         else ''API request failed with status '' @ show_nat st)"
  by (cases "trpc_data e")
     (auto simp: trpc_error_message_def friendly_Some friendly_None or_else_def
        status_failed_message_def known_codes_def ERROR_MESSAGES_def Object_prototype_def)

text \<open>
  C2. The claim is that an envelope whose \<open>error.data.code\<close> is not one of the four
  known codes surfaces the envelope's own message. The code departs from it when the
  code names an inherited property of the message table: for the envelope with message
  \<open>x\<close> and code \<open>constructor\<close>, under status 500, \<open>generateReport\<close> fails with the string
  form of the \<open>Object\<close> function, not with \<open>x\<close>.
\<close>

theorem trpc_inherited_code_surfaced:
  "fst (generateReport client0
         (answer 500 (Trpc_body \<lparr> trpc_message = ''x'', trpc_code = - 32603,
            trpc_data = Some \<lparr> data_code = ''constructor'', data_httpStatus = 500,
                                data_path = ''report.generate'' \<rparr> \<rparr>)) request0) =
     Inl (new_Error ''function Object() { [native code] }'')"
  by (simp add: generateReport_def client0_def isConfigured_def answer_def read_response_def
      trpc_error_message_cases known_codes_def Object_prototype_def catch_block_new_Error)

text \<open>
  C7. When the resolved \<open>apiKey\<close> is null or the empty string, \<open>isConfigured\<close> is false
  and \<open>generateReport\<close> fails with the configuration error without calling the
  transport: the list of transport calls is empty, whatever the transport is.
\<close>

theorem generateReport_unconfigured:
  assumes "apiKey c = None \<or> apiKey c = Some []"
  shows "\<not> isConfigured c \<and>
         generateReport c fetch request = (Inl (new_Error not_configured_message), [])"
  using assms by (auto simp: isConfigured_def generateReport_def)

theorem generateReport_unconfigured_witness:
  "apiKey (createCodeRabbitClient no_env None) = None \<and>
   \<not> isConfigured (createCodeRabbitClient no_env None) \<and>
   generateReport (createCodeRabbitClient no_env None) (answer 200 (Result_body [])) request0 =
     (Inl (new_Error not_configured_message), [])"
  using generateReport_unconfigured [of "createCodeRabbitClient no_env None"
      "answer 200 (Result_body [])" request0]
  by (simp add: createCodeRabbitClient_def getApiKeyFromEnv_def no_env_def)

text \<open>
  The code's side of the timeout: the default, what the \<open>catch\<close> block makes of an
  aborted fetch, and that \<open>generateReport\<close> calls the transport at most once.
\<close>

lemma default_timeout:
  "timeout (createCodeRabbitClient env None) = 600000 \<and>
   (cfg_timeout config = None \<longrightarrow> timeout (createCodeRabbitClient env (Some config)) = 600000)"
  by (simp add: createCodeRabbitClient_def API_TIMEOUT_MS_def)

lemma abort_becomes_timeout:
  assumes "isConfigured c"
    and "fetch (the_fetch_call c request) = Inl (Error_obj ''AbortError'' m)"
  shows "generateReport c fetch request =
         (Inl (new_Error (timed_out_message (timeout c))), [the_fetch_call c request])"
  using assms by (simp add: generateReport_def catch_block_def Let_def)

lemma timed_out_message_default:
  "timed_out_message 600000 = ''CodeRabbit report generation timed out after 600s''"
  by (simp add: timed_out_message_def show_seconds_def show_nat.simps digit_char_def)

lemma at_most_one_call: "length (snd (generateReport c fetch request)) \<le> 1"
  by (simp add: generateReport_def Let_def split: sum.splits)

lemma truthy_PromptTemplate: "truthy (map_option PromptTemplate_str x) = (x \<noteq> None)"
proof (cases x)
  case None
  then show ?thesis by simp
next
  case (Some t)
  then show ?thesis by (cases t) simp_all
qed

lemma truthy_GroupBy: "truthy (map_option GroupBy_str x) = (x \<noteq> None)"
proof (cases x)
  case None
  then show ?thesis by simp
next
  case (Some g)
  then show ?thesis by (cases g) simp_all
qed

lemma spread_if_keys: "map fst (spread_if k v) = (if truthy v then [k] else [])"
  by (cases v) (simp_all add: spread_if_def)

lemma spread_if_values: "JNull \<notin> snd ` set (spread_if k v)"
  by (cases v) (auto simp: spread_if_def)

lemma map_of_spread_if:
  "map_of (spread_if k v) k' = (if k' = k \<and> truthy v then map_option JStr v else None)"
  by (cases v) (simp_all add: spread_if_def)

text \<open>
  C6 (as amended). The wire payload always holds \<open>from\<close> and \<open>to\<close> with the request's
  values, \<open>scheduleRange\<close> (the request's, \<open>Dates\<close> by default) and \<open>parameters\<close> (the
  request's, the empty list by default, each filter sent as its \<open>parameter\<close>, \<open>operator\<close>
  and \<open>values\<close>), in this order; after them \<open>prompt\<close>,
  \<open>promptTemplate\<close>, \<open>groupBy\<close>, \<open>subgroupBy\<close> and \<open>orgId\<close>, each with the request's
  value and exactly when the request sets it to a non-empty value. No property is
  null, and a request with neither \<open>prompt\<close> nor \<open>promptTemplate\<close> gives a payload with
  neither key.
\<close>

theorem requestBody_keys:
  "json_keys (requestBody request) =
     [''from'', ''to'', ''scheduleRange'', ''parameters'']
     @ (if truthy (req_prompt request) then [''prompt''] else [])
     @ (if req_promptTemplate request \<noteq> None then [''promptTemplate''] else [])
     @ (if req_groupBy request \<noteq> None then [''groupBy''] else [])
     @ (if req_subgroupBy request \<noteq> None then [''subgroupBy''] else [])
     @ (if truthy (req_orgId request) then [''orgId''] else []) \<and>
   json_get (requestBody request) ''from'' = Some (JStr (req_from request)) \<and>
   json_get (requestBody request) ''to'' = Some (JStr (req_to request)) \<and>
   json_get (requestBody request) ''scheduleRange'' =
     Some (JStr (case req_scheduleRange request of Some s \<Rightarrow> s | None \<Rightarrow> ''Dates'')) \<and>
   json_get (requestBody request) ''parameters'' =
     Some (JArr (map FilterConfig_json
       (case req_parameters request of Some ps \<Rightarrow> ps | None \<Rightarrow> []))) \<and>
   (\<forall>f. FilterConfig_json f =
      JObj [(''parameter'', JStr (FilterParameter_str (fc_parameter f))),
            (''operator'', JStr (FilterOperator_str (fc_operator f))),
            (''values'', JArr (map JStr (fc_values f)))]) \<and>
   json_get (requestBody request) ''prompt'' =
     (if truthy (req_prompt request) then map_option JStr (req_prompt request) else None) \<and>
   json_get (requestBody request) ''promptTemplate'' =
     map_option (\<lambda>t. JStr (PromptTemplate_str t)) (req_promptTemplate request) \<and>
   json_get (requestBody request) ''groupBy'' =
     map_option (\<lambda>g. JStr (GroupBy_str g)) (req_groupBy request) \<and>
   json_get (requestBody request) ''subgroupBy'' =
     map_option (\<lambda>g. JStr (GroupBy_str g)) (req_subgroupBy request) \<and>
   json_get (requestBody request) ''orgId'' =
     (if truthy (req_orgId request) then map_option JStr (req_orgId request) else None) \<and>
   JNull \<notin> set (json_values (requestBody request)) \<and>
   (if req_prompt request = None \<and> req_promptTemplate request = None
    then ''prompt'' \<notin> set (json_keys (requestBody request)) \<and>
         ''promptTemplate'' \<notin> set (json_keys (requestBody request))
    else True)"
proof -
  note get = requestBody_def map_add_def map_of_spread_if truthy_PromptTemplate truthy_GroupBy
    option.map_comp comp_def
  have k: "json_keys (requestBody request) =
     [''from'', ''to'', ''scheduleRange'', ''parameters'']
     @ (if truthy (req_prompt request) then [''prompt''] else [])
     @ (if req_promptTemplate request \<noteq> None then [''promptTemplate''] else [])
     @ (if req_groupBy request \<noteq> None then [''groupBy''] else [])
     @ (if req_subgroupBy request \<noteq> None then [''subgroupBy''] else [])
     @ (if truthy (req_orgId request) then [''orgId''] else [])"
    by (simp add: requestBody_def spread_if_keys truthy_PromptTemplate truthy_GroupBy)
  have f: "json_get (requestBody request) ''from'' = Some (JStr (req_from request))"
    by (simp add: requestBody_def)
  have t: "json_get (requestBody request) ''to'' = Some (JStr (req_to request))"
    by (simp add: requestBody_def)
  have s: "json_get (requestBody request) ''scheduleRange'' =
     Some (JStr (case req_scheduleRange request of Some s \<Rightarrow> s | None \<Rightarrow> ''Dates''))"
    by (simp add: requestBody_def)
  have p: "json_get (requestBody request) ''parameters'' =
     Some (JArr (map FilterConfig_json
       (case req_parameters request of Some ps \<Rightarrow> ps | None \<Rightarrow> [])))"
    by (simp add: requestBody_def)
  have fc: "\<forall>f. FilterConfig_json f =
      JObj [(''parameter'', JStr (FilterParameter_str (fc_parameter f))),
            (''operator'', JStr (FilterOperator_str (fc_operator f))),
            (''values'', JArr (map JStr (fc_values f)))]"
    by (simp add: FilterConfig_json_def)
  have pr: "json_get (requestBody request) ''prompt'' =
     (if truthy (req_prompt request) then map_option JStr (req_prompt request) else None)"
    by (simp add: get split: option.splits)
  have pt: "json_get (requestBody request) ''promptTemplate'' =
     map_option (\<lambda>t. JStr (PromptTemplate_str t)) (req_promptTemplate request)"
    by (simp add: get split: option.splits)
  have gb: "json_get (requestBody request) ''groupBy'' =
     map_option (\<lambda>g. JStr (GroupBy_str g)) (req_groupBy request)"
    by (simp add: get split: option.splits)
  have sg: "json_get (requestBody request) ''subgroupBy'' =
     map_option (\<lambda>g. JStr (GroupBy_str g)) (req_subgroupBy request)"
    by (simp add: get split: option.splits)
  have og: "json_get (requestBody request) ''orgId'' =
     (if truthy (req_orgId request) then map_option JStr (req_orgId request) else None)"
    by (simp add: get split: option.splits)
  have n: "JNull \<notin> set (json_values (requestBody request))"
    using spread_if_values by (simp add: requestBody_def image_Un)
  have o: "(if req_prompt request = None \<and> req_promptTemplate request = None
    then ''prompt'' \<notin> set (json_keys (requestBody request)) \<and>
         ''promptTemplate'' \<notin> set (json_keys (requestBody request))
    else True)"
    unfolding k by simp
  show ?thesis by (intro conjI k f t s p fc pr pt gb sg og n o)
qed

theorem requestBody_keys_witness:
  "json_keys (requestBody (request0\<lparr>req_promptTemplate := Some Sprint_Report, req_orgId := Some []\<rparr>)) =
     [''from'', ''to'', ''scheduleRange'', ''parameters'', ''promptTemplate''] \<and>
   json_get (requestBody (request0\<lparr>req_promptTemplate := Some Sprint_Report, req_orgId := Some []\<rparr>))
     ''from'' = Some (JStr ''2024-01-01'') \<and>
   json_get (requestBody (request0\<lparr>req_promptTemplate := Some Sprint_Report, req_orgId := Some []\<rparr>))
     ''scheduleRange'' = Some (JStr ''Dates'') \<and>
   json_get (requestBody (request0\<lparr>req_promptTemplate := Some Sprint_Report, req_orgId := Some []\<rparr>))
     ''promptTemplate'' = Some (JStr ''Sprint Report'') \<and>
   json_get (requestBody (request0\<lparr>req_promptTemplate := Some Sprint_Report, req_orgId := Some []\<rparr>))
     ''orgId'' = None"
  using requestBody_keys [of "request0\<lparr>req_promptTemplate := Some Sprint_Report, req_orgId := Some []\<rparr>"]
  by (simp add: request0_def)

text \<open>
  C6 as stated fails: a request without \<open>parameters\<close> is sent with the key
  \<open>parameters\<close>, holding the empty list.
\<close>

theorem requestBody_parameters_counterexample:
  "req_parameters \<lparr> req_scheduleRange = None, req_from = ''2024-01-01'', req_to = ''2024-01-31'',
      req_prompt = None, req_promptTemplate = None, req_parameters = None,
      req_groupBy = None, req_subgroupBy = None, req_orgId = None \<rparr> = None \<and>
   json_get (requestBody \<lparr> req_scheduleRange = None, req_from = ''2024-01-01'',
      req_to = ''2024-01-31'', req_prompt = None, req_promptTemplate = None, req_parameters = None,
      req_groupBy = None, req_subgroupBy = None, req_orgId = None \<rparr>) ''parameters'' =
     Some (JArr [])"
  by (simp add: requestBody_def)

section \<open>Properties of the localStorage adapter\<close>

lemma json_report_fields [simp]:
  "report_id (json_report r) = report_id r"
  "status (json_report r) = status r"
  "results (json_report r) = results r"
  "error (json_report r) = error r"
  "createdAt (json_report r) = createdAt r"
  by (simp_all add: json_report_def)

lemma json_report_duration: "durationMs (json_report r) = Option.bind (durationMs r) json_number"
  by (simp add: json_report_def)

lemma json_number_Finite: "Option.bind (Some (Finite n)) json_number = Some (Finite n)"
  by simp

lemma find_json_report:
  "find (\<lambda>r. report_id r = i) (map json_report rs) =
   map_option json_report (find (\<lambda>r. report_id r = i) rs)"
  by (induction rs) simp_all

lemma find_snoc:
  "find P (xs @ [x]) = (case find P xs of Some y \<Rightarrow> Some y | None \<Rightarrow> if P x then Some x else None)"
  by (induction xs) simp_all

lemma find_update_first:
  assumes "\<And>r. report_id (f r) = report_id r"
  shows "find (\<lambda>r. report_id r = j) (update_first i f rs) =
         (if j = i then map_option f (find (\<lambda>r. report_id r = i) rs)
          else find (\<lambda>r. report_id r = j) rs)"
  using assms by (induction rs) auto

lemma find_filter_other: "find (\<lambda>r. report_id r = i) (filter (\<lambda>r. report_id r \<noteq> i) rs) = None"
  by (induction rs) simp_all

lemma find_filter_same:
  "j \<noteq> i \<Longrightarrow> find (\<lambda>r. report_id r = j) (filter (\<lambda>r. report_id r \<noteq> i) rs) =
     find (\<lambda>r. report_id r = j) rs"
  by (induction rs) auto

lemma list_all_update_first:
  "list_all P rs \<Longrightarrow> (\<And>r. P r \<Longrightarrow> P (f r)) \<Longrightarrow> list_all P (update_first i f rs)"
  by (induction rs) simp_all

lemma create_ok:
  assumes "getReports ls = Inr reports"
  shows "LocalStorageAdapter_create now1 rnd now2 d ls =
         (Inr (make_id now1 rnd),
          Item (Some (map json_report (reports @ [new_StoredReport (make_id now1 rnd) now2 d]))))"
  using assms by (cases ls) (simp_all add: LocalStorageAdapter_create_def Let_def)

lemma updateSuccess_found:
  assumes "getReports ls = Inr reports" and "find (\<lambda>r. report_id r = i) reports = Some r"
  shows "LocalStorageAdapter_updateSuccess i rs ms ls =
         (Inr (), Item (Some (map json_report (update_first i
            (\<lambda>r. r\<lparr>results := rs, status := completed, durationMs := Some ms\<rparr>) reports))))"
  using assms by (cases ls) (simp_all add: LocalStorageAdapter_updateSuccess_def)

lemma updateFailure_found:
  assumes "getReports ls = Inr reports" and "find (\<lambda>r. report_id r = i) reports = Some r"
  shows "LocalStorageAdapter_updateFailure i msg ms ls =
         (Inr (), Item (Some (map json_report (update_first i
            (\<lambda>r. r\<lparr>status := failed, error := Some msg, durationMs := Some ms\<rparr>) reports))))"
  using assms by (cases ls) (simp_all add: LocalStorageAdapter_updateFailure_def)

lemma updateSuccess_absent:
  assumes "getReports ls = Inr reports" and "find (\<lambda>r. report_id r = i) reports = None"
  shows "LocalStorageAdapter_updateSuccess i rs ms ls = (Inl (new_Error (not_found_message i)), ls)"
  using assms by (simp add: LocalStorageAdapter_updateSuccess_def)

lemma updateFailure_absent:
  assumes "getReports ls = Inr reports" and "find (\<lambda>r. report_id r = i) reports = None"
  shows "LocalStorageAdapter_updateFailure i msg ms ls = (Inl (new_Error (not_found_message i)), ls)"
  using assms by (simp add: LocalStorageAdapter_updateFailure_def)

lemma delete_ok:
  assumes "getReports ls = Inr reports"
  shows "LocalStorageAdapter_delete i ls =
         (Inr (), Item (Some (map json_report (filter (\<lambda>r. report_id r \<noteq> i) reports))))"
  using assms by (cases ls) (simp_all add: LocalStorageAdapter_delete_def)

lemma get_Item: "LocalStorageAdapter_get i (Item (Some reports)) = Inr (find (\<lambda>r. report_id r = i) reports)"
  by (simp add: LocalStorageAdapter_get_def)


lemma show_nat_17: "show_nat 17 = ''17''"
  by (simp add: show_nat.simps digit_char_def)

lemma store_pending_eq: "store_pending = Item (Some [new_StoredReport ident0 17 input0])"
  by (simp add: store_pending_def LocalStorageAdapter_create_def ident0_def Let_def
      json_report_def new_StoredReport_def input0_def pending_record_def)

text \<open>
  C5 (as amended). For the localStorage adapter in a browser. When no stored report
  has the identifier yet, \<open>create\<close> then \<open>get\<close> returns the new report, with the status of
  the input (pending by default) and the duration of the input (null when unset or not
  finite): pending and with no duration for an input that is pending and has none. After
  \<open>updateSuccess\<close> with results \<open>rs\<close> and a finite duration \<open>n\<close>, \<open>get\<close> returns a completed
  report with these results and this duration; after \<open>delete\<close>, \<open>get\<close> returns null, and a
  second \<open>delete\<close> succeeds as well and leaves \<open>get\<close> returning null.
\<close>

theorem create_get_update_delete:
  assumes "getReports ls = Inr reports"
  shows "let ident = make_id now1 rnd;
             ls1 = snd (LocalStorageAdapter_create now1 rnd now2 d ls);
             ls2 = snd (LocalStorageAdapter_updateSuccess ident rs (Finite n) ls1);
             ls3 = snd (LocalStorageAdapter_delete ident ls2)
         in fst (LocalStorageAdapter_create now1 rnd now2 d ls) = Inr ident \<and>
            (find (\<lambda>r. report_id r = ident) reports = None \<longrightarrow>
               (\<exists>r1. LocalStorageAdapter_get ident ls1 = Inr (Some r1) \<and>
                  r1 = json_report (new_StoredReport ident now2 d) \<and>
                  status r1 = (case new_status d of Some st \<Rightarrow> st | None \<Rightarrow> pending) \<and>
                  durationMs r1 = Option.bind (new_durationMs d) json_number \<and>
                  ((new_status d = None \<or> new_status d = Some pending) \<and> new_durationMs d = None \<longrightarrow>
                     status r1 = pending \<and> durationMs r1 = None))) \<and>
            fst (LocalStorageAdapter_updateSuccess ident rs (Finite n) ls1) = Inr () \<and>
            (\<exists>r2. LocalStorageAdapter_get ident ls2 = Inr (Some r2) \<and>
               status r2 = completed \<and> results r2 = rs \<and> durationMs r2 = Some (Finite n)) \<and>
            fst (LocalStorageAdapter_delete ident ls2) = Inr () \<and>
            LocalStorageAdapter_get ident ls3 = Inr None \<and>
            fst (LocalStorageAdapter_delete ident ls3) = Inr () \<and>
            LocalStorageAdapter_get ident (snd (LocalStorageAdapter_delete ident ls3)) = Inr None"
proof -
  let ?ident = "make_id now1 rnd"
  let ?r0 = "new_StoredReport ?ident now2 d"
  let ?f = "\<lambda>r::StoredReport. r\<lparr>results := rs, status := completed, durationMs := Some (Finite n)\<rparr>"
  let ?xs = "map json_report (reports @ [?r0])"
  let ?ys = "map json_report (update_first ?ident ?f ?xs)"
  let ?del = "\<lambda>zs. map json_report (filter (\<lambda>r. report_id r \<noteq> ?ident) zs)"
  have c: "LocalStorageAdapter_create now1 rnd now2 d ls = (Inr ?ident, Item (Some ?xs))"
    using create_ok [OF assms] by simp
  have id0: "report_id ?r0 = ?ident"
    by (simp add: new_StoredReport_def)
  obtain r1 where f1: "find (\<lambda>r. report_id r = ?ident) ?xs = Some r1"
    and fresh: "find (\<lambda>r. report_id r = ?ident) reports = None \<longrightarrow> r1 = json_report ?r0"
    using id0
    by (cases "find (\<lambda>r. report_id r = ?ident) reports") (simp_all add: find_json_report find_snoc)
  have g1: "LocalStorageAdapter_get ?ident (Item (Some ?xs)) = Inr (Some r1)"
    using f1 by (simp only: get_Item)
  have st0: "status (json_report ?r0) = (case new_status d of Some st \<Rightarrow> st | None \<Rightarrow> pending)"
    by (simp add: new_StoredReport_def)
  have du0: "durationMs (json_report ?r0) = Option.bind (new_durationMs d) json_number"
    by (simp add: json_report_duration new_StoredReport_def)
  have u: "LocalStorageAdapter_updateSuccess ?ident rs (Finite n) (Item (Some ?xs)) =
        (Inr (), Item (Some ?ys))"
    using updateSuccess_found [of "Item (Some ?xs)" ?xs ?ident r1 rs "Finite n"] f1
    by simp
  have f2: "find (\<lambda>r. report_id r = ?ident) ?ys = Some (json_report (?f r1))"
    using find_update_first [of ?f ?ident ?ident ?xs] f1 by (simp add: find_json_report)
  have g2: "LocalStorageAdapter_get ?ident (Item (Some ?ys)) = Inr (Some (json_report (?f r1)))"
    using f2 by (simp only: get_Item)
  have p2: "status (json_report (?f r1)) = completed \<and> results (json_report (?f r1)) = rs \<and>
        durationMs (json_report (?f r1)) = Some (Finite n)"
    by (simp add: json_report_duration)
  have dl: "LocalStorageAdapter_delete ?ident (Item (Some zs)) = (Inr (), Item (Some (?del zs)))" for zs
    using delete_ok [of "Item (Some zs)" zs ?ident] by simp
  have g3: "LocalStorageAdapter_get ?ident (Item (Some (?del zs))) = Inr None" for zs
    by (simp add: get_Item find_json_report find_filter_other)
  have part1: "find (\<lambda>r. report_id r = ?ident) reports = None \<longrightarrow>
      (\<exists>r1. LocalStorageAdapter_get ?ident (Item (Some ?xs)) = Inr (Some r1) \<and>
         r1 = json_report ?r0 \<and>
         status r1 = (case new_status d of Some st \<Rightarrow> st | None \<Rightarrow> pending) \<and>
         durationMs r1 = Option.bind (new_durationMs d) json_number \<and>
         ((new_status d = None \<or> new_status d = Some pending) \<and> new_durationMs d = None \<longrightarrow>
            status r1 = pending \<and> durationMs r1 = None))"
    using g1 fresh st0 du0 by auto
  have part2: "\<exists>r2. LocalStorageAdapter_get ?ident (Item (Some ?ys)) = Inr (Some r2) \<and>
      status r2 = completed \<and> results r2 = rs \<and> durationMs r2 = Some (Finite n)"
    using g2 p2 by blast
  show ?thesis
    unfolding Let_def c u dl fst_conv snd_conv
    by (intro conjI refl part1 part2 g3)
qed

theorem create_get_update_delete_witness:
  "let ident = make_id 17 ''abc1234'';
       ls1 = snd (LocalStorageAdapter_create 17 ''abc1234'' 17 input0 (Item None));
       ls2 = snd (LocalStorageAdapter_updateSuccess ident [result0] (Finite 1200) ls1);
       ls3 = snd (LocalStorageAdapter_delete ident ls2)
   in fst (LocalStorageAdapter_create 17 ''abc1234'' 17 input0 (Item None)) = Inr ident \<and>
      (\<exists>r1. LocalStorageAdapter_get ident ls1 = Inr (Some r1) \<and>
         status r1 = pending \<and> durationMs r1 = None) \<and>
      fst (LocalStorageAdapter_updateSuccess ident [result0] (Finite 1200) ls1) = Inr () \<and>
      (\<exists>r2. LocalStorageAdapter_get ident ls2 = Inr (Some r2) \<and>
         status r2 = completed \<and> results r2 = [result0] \<and> durationMs r2 = Some (Finite 1200)) \<and>
      fst (LocalStorageAdapter_delete ident ls2) = Inr () \<and>
      LocalStorageAdapter_get ident ls3 = Inr None \<and>
      fst (LocalStorageAdapter_delete ident ls3) = Inr () \<and>
      LocalStorageAdapter_get ident (snd (LocalStorageAdapter_delete ident ls3)) = Inr None"
proof -
  have h: "getReports (Item None) = Inr []"
    by simp
  have p: "(new_status input0 = None \<or> new_status input0 = Some pending) \<and>
      new_durationMs input0 = None"
    by (simp add: input0_def pending_record_def)
  from create_get_update_delete [OF h, of 17 "''abc1234''" 17 input0 "[result0]" 1200] p
  show ?thesis
    unfolding Let_def by auto
qed

text \<open>
  C5 as stated fails: \<open>create\<close> keeps the status of its input, so \<open>create\<close> with a
  completed input followed by \<open>get\<close> returns a completed report; and \<open>get\<close> returns the
  first report with the identifier, so when \<open>create\<close> draws an identifier that a stored
  report has already, here a failed one, \<open>get\<close> returns that report and not the new,
  pending one.
\<close>

theorem create_completed_counterexample:
  "status_of ident0
     (snd (LocalStorageAdapter_create 17 ''abc1234'' 17
        (input0\<lparr>new_status := Some completed, new_durationMs := Some (Finite 5)\<rparr>) (Item None))) =
     Some completed \<and>
   new_status input0 = Some pending \<and>
   status_of ident0 (snd (LocalStorageAdapter_create 17 ''abc1234'' 18 input0 store_failed)) =
     Some failed"
  by (simp add: status_of_def LocalStorageAdapter_create_def LocalStorageAdapter_get_def
      LocalStorageAdapter_updateFailure_def store_failed_def store_pending_eq
      ident0_def new_StoredReport_def input0_def pending_record_def Let_def)










lemma report_ok_stable: "report_ok r \<Longrightarrow> json_report r = r"
  by (simp add: report_ok_def)

lemma report_ok_new: "pending_input d \<Longrightarrow> report_ok (json_report (new_StoredReport i n d))"
  by (auto simp: pending_input_def report_ok_def new_StoredReport_def json_report_def)

lemma report_ok_success:
  "report_ok (json_report (r\<lparr>results := rs, status := completed, durationMs := Some (Finite n)\<rparr>))"
  by (simp add: report_ok_def json_report_def)

lemma report_ok_failure:
  "report_ok (json_report (r\<lparr>status := failed, error := Some msg, durationMs := Some (Finite n)\<rparr>))"
  by (simp add: report_ok_def json_report_def)

lemma list_all_report_ok_json:
  "list_all report_ok rs \<Longrightarrow> list_all report_ok (map json_report rs)"
  by (induction rs) (simp_all add: report_ok_stable)

lemma list_all_ok_update_first:
  assumes "list_all report_ok rs" and "\<And>r. report_ok (json_report (f r))"
  shows "list_all report_ok (map json_report (update_first i f rs))"
  using assms(1)
proof (induction rs)
  case Nil
  then show ?case by simp
next
  case (Cons r rs)
  then show ?case
    by (simp add: assms(2) report_ok_stable list_all_report_ok_json)
qed

lemma all_reports_ok_Item: "all_reports_ok (Item (Some reports)) = list_all report_ok reports"
  by (simp add: all_reports_ok_def)

lemma all_reports_ok_eq:
  "getReports ls = Inr reports \<Longrightarrow> all_reports_ok ls = list_all report_ok reports"
  by (simp add: all_reports_ok_def)

lemma apply_op_unavailable: "apply_op a No_localStorage = No_localStorage"
  by (cases a)
     (simp_all add: LocalStorageAdapter_create_def LocalStorageAdapter_updateSuccess_def
        LocalStorageAdapter_updateFailure_def LocalStorageAdapter_delete_def)

lemma apply_op_ok:
  assumes "creates_pending a" and "finite_update a" and "all_reports_ok ls"
  shows "all_reports_ok (apply_op a ls)"
proof (cases "getReports ls")
  case (Inl e)
  then have "ls = No_localStorage"
    by (cases ls rule: getReports.cases) simp_all
  then show ?thesis
    by (simp add: apply_op_unavailable all_reports_ok_def)
next
  case (Inr reports)
  with assms(3) have ok: "list_all report_ok reports"
    by (simp add: all_reports_ok_eq)
  show ?thesis
  proof (cases a)
    case (Create n1 rnd n2 d)
    with assms(1) have "pending_input d" by simp
    then show ?thesis
      using Create ok
      by (simp add: create_ok [OF Inr] all_reports_ok_Item report_ok_new list_all_report_ok_json)
  next
    case (UpdateSuccess j rs ms)
    with assms(2) obtain n where ms: "ms = Finite n"
      by (cases ms) simp_all
    show ?thesis
    proof (cases "find (\<lambda>r. report_id r = j) reports")
      case None
      then show ?thesis
        using UpdateSuccess assms(3) by (simp add: updateSuccess_absent [OF Inr])
    next
      case (Some r)
      then show ?thesis
        using UpdateSuccess ok ms
        by (simp add: updateSuccess_found [OF Inr Some] all_reports_ok_Item
            list_all_ok_update_first report_ok_success)
    qed
  next
    case (UpdateFailure j msg ms)
    with assms(2) obtain n where ms: "ms = Finite n"
      by (cases ms) simp_all
    show ?thesis
    proof (cases "find (\<lambda>r. report_id r = j) reports")
      case None
      then show ?thesis
        using UpdateFailure assms(3) by (simp add: updateFailure_absent [OF Inr])
    next
      case (Some r)
      then show ?thesis
        using UpdateFailure ok ms
        by (simp add: updateFailure_found [OF Inr Some] all_reports_ok_Item
            list_all_ok_update_first report_ok_failure)
    qed
  next
    case (Delete j)
    have "list_all report_ok (filter (\<lambda>r. report_id r \<noteq> j) reports)"
      using ok by (simp add: list_all_iff)
    then show ?thesis
      using Delete by (simp add: delete_ok [OF Inr] all_reports_ok_Item list_all_report_ok_json)
  qed
qed

lemma run_ops_ok:
  "list_all creates_pending ops \<Longrightarrow> list_all finite_update ops \<Longrightarrow> all_reports_ok ls \<Longrightarrow>
   all_reports_ok (run_ops ops ls)"
  by (induction ops arbitrary: ls) (simp_all add: apply_op_ok)

lemma find_SomeD: "find P xs = Some x \<Longrightarrow> x \<in> set xs"
  by (induction xs) (auto split: if_splits)

lemma get_SomeD:
  assumes "LocalStorageAdapter_get i ls = Inr (Some r)"
  shows "\<exists>reports. getReports ls = Inr reports \<and> find (\<lambda>r. report_id r = i) reports = Some r"
  using assms by (cases "getReports ls") (simp_all add: LocalStorageAdapter_get_def)

text \<open>
  C4 (as amended). Take any sequence of calls of the adapter, from an empty storage, in
  which every \<open>create\<close> input is as the hook builds it (pending or no status, no error,
  no duration, no results) and every update is given a finite duration. For every
  report that \<open>get\<close> then finds: its duration is null exactly when its status is pending;
  a pending report has no results and no error; a failed report has an error. Exactly
  one of results non-empty and error non-null holds after the first update of a pending
  report when that update is \<open>updateFailure\<close>, and when it is \<open>updateSuccess\<close> exactly if
  the results given are not empty.
\<close>

theorem stored_report_invariant:
  assumes "list_all creates_pending ops"
    and "list_all finite_update ops"
    and "LocalStorageAdapter_get ident (run_ops ops (Item None)) = Inr (Some r)"
  shows "(durationMs r = None) = (status r = pending) \<and>
         (status r = pending \<longrightarrow> results r = [] \<and> error r = None) \<and>
         (status r = failed \<longrightarrow> error r \<noteq> None) \<and>
         (status r = pending \<longrightarrow>
            LocalStorageAdapter_get ident
                (apply_op (UpdateFailure ident msg (Finite n)) (run_ops ops (Item None))) =
              Inr (Some (r\<lparr>status := failed, error := Some msg, durationMs := Some (Finite n)\<rparr>)) \<and>
            exactly_one (r\<lparr>status := failed, error := Some msg, durationMs := Some (Finite n)\<rparr>) \<and>
            LocalStorageAdapter_get ident
                (apply_op (UpdateSuccess ident rs (Finite n)) (run_ops ops (Item None))) =
              Inr (Some (r\<lparr>results := rs, status := completed, durationMs := Some (Finite n)\<rparr>)) \<and>
            exactly_one (r\<lparr>results := rs, status := completed, durationMs := Some (Finite n)\<rparr>) =
              (rs \<noteq> []))"
proof -
  let ?S = "run_ops ops (Item None)"
  from get_SomeD [OF assms(3)] obtain reports where
    g: "getReports ?S = Inr reports"
    and f: "find (\<lambda>r. report_id r = ident) reports = Some r" by blast
  have "all_reports_ok (Item None)"
    by (simp add: all_reports_ok_def)
  then have "all_reports_ok ?S"
    using assms(1,2) by (simp add: run_ops_ok)
  with g have "list_all report_ok reports"
    by (simp add: all_reports_ok_eq)
  with find_SomeD [OF f] have ok: "report_ok r"
    by (simp add: list_all_iff)
  have uf: "LocalStorageAdapter_get ident (apply_op (UpdateFailure ident msg (Finite n)) ?S) =
      Inr (Some (r\<lparr>status := failed, error := Some msg, durationMs := Some (Finite n)\<rparr>))"
    using f by (simp add: updateFailure_found [OF g f] get_Item find_json_report find_update_first
        json_report_def)
  have us: "LocalStorageAdapter_get ident (apply_op (UpdateSuccess ident rs (Finite n)) ?S) =
      Inr (Some (r\<lparr>results := rs, status := completed, durationMs := Some (Finite n)\<rparr>))"
    using f by (simp add: updateSuccess_found [OF g f] get_Item find_json_report find_update_first
        json_report_def)
  from ok have a: "(durationMs r = None) = (status r = pending)"
    and b: "status r = pending \<longrightarrow> results r = [] \<and> error r = None"
    and c: "status r = failed \<longrightarrow> error r \<noteq> None"
    by (simp_all add: report_ok_def split: if_splits)
  from b have e1: "status r = pending \<longrightarrow>
      exactly_one (r\<lparr>status := failed, error := Some msg, durationMs := Some (Finite n)\<rparr>)"
    by (simp add: exactly_one_def)
  from b have e2: "status r = pending \<longrightarrow>
      exactly_one (r\<lparr>results := rs, status := completed, durationMs := Some (Finite n)\<rparr>) =
        (rs \<noteq> [])"
    by (simp add: exactly_one_def)
  from a b c uf us e1 e2 show ?thesis by blast
qed

theorem stored_report_invariant_witness:
  "LocalStorageAdapter_get ident0 (run_ops [Create 17 ''abc1234'' 17 input0] (Item None)) =
     Inr (Some (new_StoredReport ident0 17 input0)) \<and>
   status (new_StoredReport ident0 17 input0) = pending \<and>
   durationMs (new_StoredReport ident0 17 input0) = None \<and>
   LocalStorageAdapter_get ident0
       (apply_op (UpdateSuccess ident0 [result0] (Finite 1200))
          (run_ops [Create 17 ''abc1234'' 17 input0] (Item None))) =
     Inr (Some ((new_StoredReport ident0 17 input0)
            \<lparr>results := [result0], status := completed, durationMs := Some (Finite 1200)\<rparr>)) \<and>
   exactly_one ((new_StoredReport ident0 17 input0)
            \<lparr>results := [result0], status := completed, durationMs := Some (Finite 1200)\<rparr>)"
proof -
  have h1: "list_all creates_pending [Create 17 ''abc1234'' 17 input0]"
    by (simp add: pending_input_def input0_def pending_record_def)
  have h2: "list_all finite_update [Create 17 ''abc1234'' 17 input0]"
    by simp
  have h3: "LocalStorageAdapter_get ident0 (run_ops [Create 17 ''abc1234'' 17 input0] (Item None)) =
      Inr (Some (new_StoredReport ident0 17 input0))"
    using store_pending_eq by (simp add: store_pending_def get_Item new_StoredReport_def)
  have h4: "status (new_StoredReport ident0 17 input0) = pending"
    by (simp add: new_StoredReport_def input0_def pending_record_def)
  from stored_report_invariant [OF h1 h2 h3, of "''x''" 1200 "[result0]"] h3 h4
  show ?thesis by simp
qed

text \<open>
  C4 as stated fails. \<open>updateSuccess\<close> with an empty list of results leaves a completed
  report with no results and no error. \<open>updateSuccess\<close> with a duration that is not a
  number leaves a completed report whose duration is null. \<open>create\<close> with a pending
  input that has a duration stores a pending report with that duration.
\<close>

theorem completed_without_results_counterexample:
  "LocalStorageAdapter_get ident0
       (snd (LocalStorageAdapter_updateSuccess ident0 [] (Finite 5) store_pending)) =
     Inr (Some ((new_StoredReport ident0 17 input0)
            \<lparr>results := [], status := completed, durationMs := Some (Finite 5)\<rparr>)) \<and>
   results ((new_StoredReport ident0 17 input0)
            \<lparr>results := [], status := completed, durationMs := Some (Finite 5)\<rparr>) = [] \<and>
   error ((new_StoredReport ident0 17 input0)
            \<lparr>results := [], status := completed, durationMs := Some (Finite 5)\<rparr>) = None \<and>
   LocalStorageAdapter_get ident0
       (snd (LocalStorageAdapter_updateSuccess ident0 [result0] NaN store_pending)) =
     Inr (Some ((new_StoredReport ident0 17 input0)
            \<lparr>results := [result0], status := completed, durationMs := None\<rparr>)) \<and>
   LocalStorageAdapter_get ident0
       (snd (LocalStorageAdapter_create 17 ''abc1234'' 17
          (input0\<lparr>new_durationMs := Some (Finite 5)\<rparr>) (Item None))) =
     Inr (Some ((new_StoredReport ident0 17 input0)
            \<lparr>status := pending, durationMs := Some (Finite 5)\<rparr>))"
  by (simp add: store_pending_eq LocalStorageAdapter_get_def LocalStorageAdapter_updateSuccess_def
      LocalStorageAdapter_create_def ident0_def new_StoredReport_def input0_def
      pending_record_def json_report_def Let_def)

section \<open>Properties of the hook\<close>

lemma make_id_not_empty: "make_id now rnd \<noteq> []"
  by (simp add: make_id_def)


text \<open>
  For any adapter: when \<open>create\<close> has answered with a non-empty identifier and the
  client fails, the hook calls \<open>updateFailure\<close> with that identifier, the client's
  message and the elapsed time. When that call succeeds, the error callback is called
  with the message.
\<close>

lemma hook_failure_path:
  assumes "opt_storage options = Some storage"
    and "ad_create storage (pending_record request) s = (Inr ident, s1)"
    and "ident \<noteq> []"
    and "client request = Inl err"
    and "ad_updateFailure storage ident (error_text err) (elapsed startTime t_catch) s1 = (Inr (), s2)"
    and "opt_onError options = Some onError"
  shows "useCodeRabbit_generateReport options client startTime t_done t_catch request s =
    \<lparr> returned = (case onError (error_text err) of None \<Rightarrow> Inr None | Some err3 \<Rightarrow> Inl err3),
      isGenerating = False, error_state = Some (error_text err),
      callbacks = [OnError (error_text err)], storage_state = s2 \<rparr>"
  using assms
  by (simp add: useCodeRabbit_generateReport_def create_pending_def hook_catch_def
      write_failure_def Let_def)

text \<open>
  C9 (as amended). Given a storage adapter whose \<open>create\<close> answers with a non-empty
  identifier and whose \<open>updateFailure\<close> then succeeds, an error callback that returns
  normally, and a client call that fails with a message: the hook's promise resolves
  with null, the error state carries the message, the error callback has been called
  exactly once, with the message, and the storage is as that \<open>updateFailure\<close> call, made
  with the identifier, the message and the time from the recorded start to the \<open>catch\<close>
  block, left it. For the localStorage adapter in a browser, when no older report has
  the identifier that \<open>create\<close> draws, \<open>get\<close> on it then returns the report created in
  the pending step, failed, with the message as error and that time as duration.
\<close>

theorem hook_records_failure:
  "(opt_storage options = Some storage \<and>
    ad_create storage (pending_record request) s = (Inr ident, s1) \<and> ident \<noteq> [] \<and>
    client request = Inl err \<and>
    ad_updateFailure storage ident (error_text err) (elapsed startTime t_catch) s1 = (Inr (), s2) \<and>
    opt_onError options = Some onError \<and> onError (error_text err) = None \<longrightarrow>
      useCodeRabbit_generateReport options client startTime t_done t_catch request s =
        \<lparr> returned = Inr None, isGenerating = False, error_state = Some (error_text err),
          callbacks = [OnError (error_text err)], storage_state = s2 \<rparr>) \<and>
   (opt_storage loptions = Some (LocalStorageAdapter now1 rnd now2) \<and>
    getReports ls = Inr reports \<and>
    find (\<lambda>r. report_id r = make_id now1 rnd) reports = None \<and>
    client request = Inl err \<and>
    opt_onError loptions = Some onError \<and> onError (error_text err) = None \<longrightarrow>
      (let out = useCodeRabbit_generateReport loptions client startTime t_done t_catch request ls
       in returned out = Inr None \<and>
          isGenerating out = False \<and>
          error_state out = Some (error_text err) \<and>
          callbacks out = [OnError (error_text err)] \<and>
          LocalStorageAdapter_get (make_id now1 rnd) (storage_state out) =
            Inr (Some ((new_StoredReport (make_id now1 rnd) now2 (pending_record request))
                   \<lparr>status := failed, error := Some (error_text err),
                     durationMs := Some (elapsed startTime t_catch)\<rparr>))))"
proof (intro conjI impI)
  assume a: "opt_storage options = Some storage \<and>
    ad_create storage (pending_record request) s = (Inr ident, s1) \<and> ident \<noteq> [] \<and>
    client request = Inl err \<and>
    ad_updateFailure storage ident (error_text err) (elapsed startTime t_catch) s1 = (Inr (), s2) \<and>
    opt_onError options = Some onError \<and> onError (error_text err) = None"
  then show "useCodeRabbit_generateReport options client startTime t_done t_catch request s =
        \<lparr> returned = Inr None, isGenerating = False, error_state = Some (error_text err),
          callbacks = [OnError (error_text err)], storage_state = s2 \<rparr>"
    using hook_failure_path [of options storage request s ident s1 client err startTime t_catch s2
        onError t_done]
    by simp
next
  let ?ident = "make_id now1 rnd"
  let ?r0 = "new_StoredReport ?ident now2 (pending_record request)"
  let ?f = "\<lambda>r::StoredReport. r\<lparr>status := failed, error := Some (error_text err),
    durationMs := Some (elapsed startTime t_catch)\<rparr>"
  let ?xs = "map json_report (reports @ [?r0])"
  let ?ys = "map json_report (update_first ?ident ?f ?xs)"
  assume a: "opt_storage loptions = Some (LocalStorageAdapter now1 rnd now2) \<and>
    getReports ls = Inr reports \<and>
    find (\<lambda>r. report_id r = make_id now1 rnd) reports = None \<and>
    client request = Inl err \<and>
    opt_onError loptions = Some onError \<and> onError (error_text err) = None"
  then have g: "getReports ls = Inr reports"
    and fresh: "find (\<lambda>r. report_id r = ?ident) reports = None" by simp_all
  have c: "ad_create (LocalStorageAdapter now1 rnd now2) (pending_record request) ls =
      (Inr ?ident, Item (Some ?xs))"
    using create_ok [OF g] by (simp add: LocalStorageAdapter_def)
  have st: "json_report ?r0 = ?r0"
    by (simp add: json_report_def new_StoredReport_def pending_record_def)
  have f1: "find (\<lambda>r. report_id r = ?ident) ?xs = Some ?r0"
    using fresh st by (simp add: find_json_report find_snoc new_StoredReport_def)
  have u: "ad_updateFailure (LocalStorageAdapter now1 rnd now2) ?ident (error_text err)
      (elapsed startTime t_catch) (Item (Some ?xs)) = (Inr (), Item (Some ?ys))"
    using updateFailure_found [of "Item (Some ?xs)" ?xs ?ident ?r0 "error_text err"
        "elapsed startTime t_catch"] f1
    by (simp add: LocalStorageAdapter_def)
  have out: "useCodeRabbit_generateReport loptions client startTime t_done t_catch request ls =
      \<lparr> returned = Inr None, isGenerating = False, error_state = Some (error_text err),
        callbacks = [OnError (error_text err)], storage_state = Item (Some ?ys) \<rparr>"
    using hook_failure_path [of loptions "LocalStorageAdapter now1 rnd now2" request ls ?ident
        "Item (Some ?xs)" client err startTime t_catch "Item (Some ?ys)" onError t_done]
      a c u make_id_not_empty [of now1 rnd]
    by simp
  have f2: "find (\<lambda>r. report_id r = ?ident) ?ys = Some (json_report (?f ?r0))"
    using find_update_first [of ?f ?ident ?ident ?xs] f1 by (simp add: find_json_report)
  have fin: "json_report (?f ?r0) = ?f ?r0"
    by (simp add: json_report_def elapsed_def)
  have g2: "LocalStorageAdapter_get ?ident (Item (Some ?ys)) = Inr (Some (?f ?r0))"
    using f2 fin by (simp only: get_Item)
  show "let out = useCodeRabbit_generateReport loptions client startTime t_done t_catch request ls
       in returned out = Inr None \<and>
          isGenerating out = False \<and>
          error_state out = Some (error_text err) \<and>
          callbacks out = [OnError (error_text err)] \<and>
          LocalStorageAdapter_get (make_id now1 rnd) (storage_state out) =
            Inr (Some ((new_StoredReport (make_id now1 rnd) now2 (pending_record request))
                   \<lparr>status := failed, error := Some (error_text err),
                     durationMs := Some (elapsed startTime t_catch)\<rparr>))"
    unfolding Let_def out using g2 by simp
qed

theorem hook_records_failure_witness:
  "useCodeRabbit_generateReport
      \<lparr> opt_storage = Some quiet_adapter, opt_onSuccess = None, opt_onError = Some quiet_onError \<rparr>
      (failing_client ''boom'') 100 350 350 request0 () =
     \<lparr> returned = Inr None, isGenerating = False, error_state = Some ''boom'',
       callbacks = [OnError ''boom''], storage_state = () \<rparr> \<and>
   (let out = useCodeRabbit_generateReport
               \<lparr> opt_storage = Some (LocalStorageAdapter 17 ''abc1234'' 17),
                 opt_onSuccess = None, opt_onError = Some quiet_onError \<rparr>
               (failing_client ''boom'') 100 350 350 request0 (Item None)
    in returned out = Inr None \<and>
       error_state out = Some ''boom'' \<and>
       callbacks out = [OnError ''boom''] \<and>
       LocalStorageAdapter_get (make_id 17 ''abc1234'') (storage_state out) =
         Inr (Some ((new_StoredReport (make_id 17 ''abc1234'') 17 (pending_record request0))
                \<lparr>status := failed, error := Some ''boom'',
                  durationMs := Some (elapsed 100 350)\<rparr>)))"
  using hook_records_failure [of
      "\<lparr> opt_storage = Some quiet_adapter, opt_onSuccess = None, opt_onError = Some quiet_onError \<rparr>"
      quiet_adapter request0 "()" "''report_1''" "()" "failing_client ''boom''" "new_Error ''boom''"
      100 350 "()" quiet_onError 350
      "\<lparr> opt_storage = Some (LocalStorageAdapter 17 ''abc1234'' 17),
         opt_onSuccess = None, opt_onError = Some quiet_onError \<rparr>"
      17 "''abc1234''" 17 "Item None" "[]"]
  by (simp add: quiet_adapter_def quiet_onError_def failing_client_def new_Error_def Let_def)

text \<open>
  C9 as stated fails: \<open>updateFailure\<close> marks the first report that has the identifier.
  When \<open>create\<close> draws an identifier that a stored report has already, that older report
  is marked failed and the report created in the pending step stays pending.
\<close>

theorem hook_collision_counterexample:
  "getReports store_pending = Inr [new_StoredReport ident0 17 input0] \<and>
   getReports (storage_state (useCodeRabbit_generateReport
       \<lparr> opt_storage = Some (LocalStorageAdapter 17 ''abc1234'' 18),
         opt_onSuccess = None, opt_onError = Some quiet_onError \<rparr>
       (failing_client ''boom'') 100 350 350 request0 store_pending)) =
     Inr [(new_StoredReport ident0 17 input0)
            \<lparr>status := failed, error := Some ''boom'', durationMs := Some (Finite 250)\<rparr>,
          new_StoredReport ident0 18 (pending_record request0)] \<and>
   status (new_StoredReport ident0 18 (pending_record request0)) = pending"
  by (simp add: useCodeRabbit_generateReport_def create_pending_def hook_catch_def
      write_failure_def LocalStorageAdapter_def store_pending_eq LocalStorageAdapter_create_def
      LocalStorageAdapter_updateFailure_def failing_client_def new_Error_def quiet_onError_def
      elapsed_def ident0_def new_StoredReport_def input0_def pending_record_def json_report_def
      make_id_not_empty Let_def)





end
